theory Spec2Isabelle
  imports Complex_Main
begin

section \<open>The device NUFFT of linalg/nufft\_hsa.py\<close>

text \<open>
  The class \<^verbatim>\<open>NUFFT_hsa\<close> drives an accelerator through the reikna thread \<^verbatim>\<open>self.thr\<close>
  and the compiled kernels \<^verbatim>\<open>self.prg\<close>. The model keeps the instance as a record that is
  passed to every method and returned updated. Device memory is a list of buffers; the
  handle of a buffer is its position, a new buffer is appended, and nothing is ever
  freed (the \<^verbatim>\<open>del\<close> statements of the source drop a local name only).
  Elements are complex numbers: the rounding of \<^verbatim>\<open>numpy.complex64\<close> is left out.
  The decorator \<^verbatim>\<open>push_cuda_context\<close> swallows its own failure and then calls the
  method, so it has no counterpart here.
\<close>

subsection \<open>Values\<close>

type_synonym addr = nat

datatype dtype = complex64 | float32

record gpuarray =
  shape :: "nat list"
  dtype :: dtype
  data :: "complex list"

text \<open>
  What a caller can hand to a method: a handle of a device buffer, a host
  \<^verbatim>\<open>numpy.ndarray\<close> (shape and elements in C order), or any other Python object, such as
  a list, that has no \<^verbatim>\<open>shape\<close> and is no buffer.
\<close>

datatype pyval = GpuArray addr | NdArray "nat list" "complex list" | PyObject

text \<open>
  The exceptions that can leave a method. \<open>DeviceError\<close> stands for whatever the
  execution context raises when an operand of a copy or of a kernel is not one of its
  device buffers (the source's comment on its handlers: "gx is not a gpu array").
\<close>

datatype error = ValueError | NameError | UnboundLocalError | AttributeError | DeviceError

subsection \<open>The plan structures\<close>

text \<open>
  Modelled from the spec: the partial-ELL interpolator \<^verbatim>\<open>st['pELL']\<close> is built by
  \<^verbatim>\<open>helper.plan\<close>, which is not among the sources. \<^verbatim>\<open>offload\<close> reads its scalars
  \<open>nRow\<close>, \<open>prodJd\<close>, \<open>sumJd\<close>, \<open>dim\<close> and ships the arrays \<^verbatim>\<open>Jd\<close>, \<^verbatim>\<open>meshindex\<close>,
  \<^verbatim>\<open>kindx\<close>, \<^verbatim>\<open>udata\<close> to the device, where only the two sparse kernels read them. The
  spec presents the content of these arrays as two tables, \<open>neighborIndex[M][prodJd]\<close>
  and \<open>weight[M][prodJd]\<close>; the record stores the tables.
\<close>

record pELL =
  nRow :: nat
  prodJd :: nat
  sumJd :: nat
  dim :: nat
  neighborIndex :: "nat \<Rightarrow> nat \<Rightarrow> nat"
  weight :: "nat \<Rightarrow> nat \<Rightarrow> complex"

record tSN =
  Td_elements :: "nat list"
  invTd_elements :: "real list"
  Td :: "nat list"
  Tdims :: nat
  tensor_sn :: "real list"

text \<open>The dictionary \<^verbatim>\<open>self.st\<close> returned by the planner, with the keys the class reads.\<close>

record st =
  st_Nd :: "nat list"
  st_Kd :: "nat list"
  st_Jd :: "nat list"
  st_M :: nat
  st_pELL :: pELL
  st_tSN :: tSN

subsection \<open>The compiled kernels\<close>

text \<open>
  The kernel sources (\<^verbatim>\<open>re_subroutine\<close>) and reikna's FFT are not among the sources.
  The kernels whose content no statement below depends on are parameters of the
  instance: each maps the contents of the buffers it is given to the new contents of the
  buffer it writes. The stride arrays that \<^verbatim>\<open>cTensorCopy\<close> receives are computed from
  \<open>Nd\<close> and \<open>Kd\<close> by an absent helper; the parameter receives \<open>Nd\<close> and \<open>Kd\<close>.
\<close>

record program =
  cPopulate :: "nat \<Rightarrow> nat \<Rightarrow> complex list \<Rightarrow> complex list \<Rightarrow> complex list"
  cTensorMultiply :: "nat \<Rightarrow> tSN \<Rightarrow> complex list \<Rightarrow> nat \<Rightarrow> complex list"
  cTensorCopy :: "nat \<Rightarrow> nat \<Rightarrow> nat list \<Rightarrow> nat list \<Rightarrow> complex list \<Rightarrow> complex list \<Rightarrow> int
                  \<Rightarrow> complex list"
  pELL_spmvh_mCoil :: "nat \<Rightarrow> pELL \<Rightarrow> real list \<Rightarrow> real list \<Rightarrow> complex list
                  \<Rightarrow> real list \<times> real list"
  cAggregate :: "nat \<Rightarrow> nat \<Rightarrow> complex list \<Rightarrow> complex list \<Rightarrow> complex list"
  fft :: "nat list \<Rightarrow> nat list \<Rightarrow> complex list \<Rightarrow> bool \<Rightarrow> complex list"

text \<open>
  Modelled from the spec: the kernel \<^verbatim>\<open>pELL_spmv_mCoil\<close> is missing. Spec 4.3: for every
  sample \<open>m\<close> and batch \<open>b\<close> it computes
  \<open>y[m,b] = \<Sum>j<prodJd. weight[m,j] * k[neighborIndex[m,j], b]\<close>. Both arrays are in C
  order with the batch as last axis, so \<open>y[m,b]\<close> is element \<open>m * batch + b\<close>. A read
  outside \<open>k\<close> has no defined value on the device; here it gives 0.
\<close>

definition pELL_spmv_mCoil :: "nat \<Rightarrow> pELL \<Rightarrow> complex list \<Rightarrow> complex list \<Rightarrow> complex list" where
  "pELL_spmv_mCoil b p k y =
     map (\<lambda>i. if i < nRow p * b
               then sum_list (map (\<lambda>j. weight p (i div b) j *
                      (let c = neighborIndex p (i div b) j * b + i mod b
                       in if c < length k then k ! c else 0)) [0..<prodJd p])
               else y ! i) [0..<length y]"

text \<open>
  Modelled from the spec: the kernels \<^verbatim>\<open>cMultiplyVecInplace\<close> and
  \<^verbatim>\<open>cMultiplyConjVecInplace\<close> are missing. Spec 4.4: the distributor multiplies
  element-wise by the coil sensitivity buffer, the combiner by its conjugate; the names
  and the call sites say that the second array is overwritten. The first argument is the
  number of consecutive elements of \<open>outb\<close> that share one element of \<open>a\<close> (1 at both
  call sites); \<open>n\<close> is the global size, the number of work items.
\<close>

definition cMultiplyVecInplace :: "nat \<Rightarrow> complex list \<Rightarrow> complex list \<Rightarrow> nat \<Rightarrow> complex list" where
  "cMultiplyVecInplace b a outb n =
     map (\<lambda>i. if i < n \<and> i div b < length a then outb ! i * a ! (i div b) else outb ! i)
       [0..<length outb]"

definition cMultiplyConjVecInplace :: "nat \<Rightarrow> complex list \<Rightarrow> complex list \<Rightarrow> nat \<Rightarrow> complex list" where
  "cMultiplyConjVecInplace b a outb n =
     map (\<lambda>i. if i < n \<and> i div b < length a then outb ! i * cnj (a ! (i div b)) else outb ! i)
       [0..<length outb]"

subsection \<open>The instance\<close>

text \<open>
  \<open>thr\<close> is the device memory of the execution context, \<open>uninit\<close> the unknown content
  of a buffer that has just been allocated (by handle and position), \<open>n_to_device\<close> a
  counter of the calls of the method \<^verbatim>\<open>to_device\<close>, kept for the statement about the
  fallback. \<open>batch\<close> is a \<^verbatim>\<open>numpy.uint32\<close> in the source; it is a natural number here
  and stands for a value below \<open>2 ^ 32\<close>. The device copies of the plan's arrays
  (\<^verbatim>\<open>self.pELL\<close>, \<^verbatim>\<open>self.tSN\<close>, \<^verbatim>\<open>self.volume\<close>) are never written after \<^verbatim>\<open>offload\<close>
  and are kept as fields; only the coil profile, which is written, lives in \<open>thr\<close>.
\<close>

record nufft =
  thr :: "gpuarray list"
  uninit :: "addr \<Rightarrow> nat \<Rightarrow> complex"
  n_to_device :: nat
  prg :: program
  ndims :: nat
  ft_axes :: "nat list"
  st :: st
  parallel_flag :: nat
  batch :: nat
  Nd :: "nat list"
  Kd :: "nat list"
  multi_Nd :: "nat list"
  multi_Kd :: "nat list"
  multi_M :: "nat list"
  Kdprod :: nat
  Jdprod :: nat
  Ndprod :: nat
  M :: nat
  pELL :: pELL
  tSN :: tSN
  gpu_coil_profile :: addr
  fft_shape :: "nat list"

type_synonym 'a result = "(error + 'a) \<times> nufft"

subsection \<open>The execution context\<close>

text \<open>\<^verbatim>\<open>thr.array(shape, dtype)\<close>: a new buffer, its content unknown.\<close>

definition array :: "nufft \<Rightarrow> nat list \<Rightarrow> dtype \<Rightarrow> addr \<times> nufft" where
  "array s shp dt =
     (length (thr s),
      s\<lparr>thr := thr s @ [\<lparr>shape = shp, dtype = dt,
                          data = map (uninit s (length (thr s))) [0..<prod_list shp]\<rparr>]\<rparr>)"

text \<open>Writing the content of a buffer, as a kernel or a copy does.\<close>

definition put :: "nufft \<Rightarrow> addr \<Rightarrow> complex list \<Rightarrow> nufft" where
  "put s a d = s\<lparr>thr := (thr s)[a := (thr s ! a)\<lparr>data := d\<rparr>]\<rparr>"

text \<open>\<^verbatim>\<open>arr.fill(v)\<close> sets every element and returns the array itself.\<close>

definition fill :: "nufft \<Rightarrow> addr \<Rightarrow> complex \<Rightarrow> nufft" where
  "fill s a v = put s a (replicate (length (data (thr s ! a))) v)"

text \<open>The buffer behind an operand of a kernel or of a device copy.\<close>

definition get :: "nufft \<Rightarrow> pyval \<Rightarrow> error + gpuarray" where
  "get s v = (case v of
       GpuArray a \<Rightarrow> if a < length (thr s) then Inr (thr s ! a) else Inl DeviceError
     | NdArray shp d \<Rightarrow> Inl DeviceError
     | PyObject \<Rightarrow> Inl DeviceError)"

text \<open>The attribute \<^verbatim>\<open>.shape\<close>.\<close>

definition shape_of :: "nufft \<Rightarrow> pyval \<Rightarrow> error + nat list" where
  "shape_of s v = (case v of
       GpuArray a \<Rightarrow> if a < length (thr s) then Inr (shape (thr s ! a)) else Inl DeviceError
     | NdArray shp d \<Rightarrow> Inr shp
     | PyObject \<Rightarrow> Inl AttributeError)"

subsection \<open>Planning\<close>

text \<open>
  \<^verbatim>\<open>offload\<close>: of its device allocations only the coil profile is kept in \<open>thr\<close>; it
  is allocated with shape \<open>multi_Nd\<close> and filled with ones.
\<close>

definition offload :: "nufft \<Rightarrow> nufft" where
  "offload s =
     (case array s (multi_Nd s) complex64 of (g, s1) \<Rightarrow>
        (fill s1 g 1)
          \<lparr>Kdprod := prod_list (st_Kd (st s)),
           Ndprod := prod_list (st_Nd (st s)),
           M := st_M (st s),
           pELL := st_pELL (st s),
           tSN := st_tSN (st s),
           gpu_coil_profile := g,
           fft_shape := (if batch s > 1 then st_Kd (st s) @ [batch s] else st_Kd (st s))\<rparr>)"

text \<open>
  \<^verbatim>\<open>plan(om, Nd, Kd, Jd, ft_axes, batch)\<close>. The planner \<^verbatim>\<open>helper.plan\<close> is absent: its
  result \<open>p\<close> is an argument, and \<open>Nd\<close> is read from it. The fields that only the
  kernels read (\<^verbatim>\<open>invbatch\<close>, the stride and index arrays) and the work-group sizes of
  the kernel calls are left out.
\<close>

definition plan :: "nufft \<Rightarrow> st \<Rightarrow> nat list option \<Rightarrow> nat option \<Rightarrow> nufft" where
  "plan s p axes b =
     (let s1 = s\<lparr>ndims := length (st_Nd p),
                 ft_axes := (case axes of None \<Rightarrow> [0..<length (st_Nd p)] | Some ax \<Rightarrow> ax),
                 st := p,
                 parallel_flag := (case b of None \<Rightarrow> 0 | Some n \<Rightarrow> 1),
                 batch := (case b of None \<Rightarrow> 1 | Some n \<Rightarrow> n),
                 Nd := st_Nd p,
                 Kd := st_Kd p\<rparr>;
          s2 = (if batch s1 = 1 \<and> parallel_flag s1 = 0
                then s1\<lparr>multi_Nd := Nd s1, multi_Kd := Kd s1, multi_M := [st_M p]\<rparr>
                else s1\<lparr>multi_Nd := Nd s1 @ [batch s1], multi_Kd := Kd s1 @ [batch s1],
                        multi_M := [st_M p] @ [batch s1]\<rparr>);
          s3 = s2\<lparr>Kdprod := prod_list (st_Kd p), Jdprod := prod_list (st_Jd p),
                  Ndprod := prod_list (st_Nd p)\<rparr>
      in offload s3)"

subsection \<open>Coil sensitivities\<close>


text \<open>
  \<^verbatim>\<open>set_sense\<close> compares the shape with \<open>multi_Nd\<close> and raises \<open>ValueError\<close>; otherwise
  \<^verbatim>\<open>thr.to_device\<close> copies the host array into a new buffer, to which the profile is
  rebound. A device array cannot be the source of a host transfer.
\<close>

definition set_sense :: "nufft \<Rightarrow> pyval \<Rightarrow> unit result" where
  "set_sense s coil_profile =
     (case shape_of s coil_profile of
        Inl e \<Rightarrow> (Inl e, s)
      | Inr shp \<Rightarrow>
          if shp \<noteq> multi_Nd s then (Inl ValueError, s)
          else (case coil_profile of
                  NdArray shp' d \<Rightarrow>
                    (case array s shp' complex64 of (g, s1) \<Rightarrow>
                       (Inr (), (put s1 g d)\<lparr>gpu_coil_profile := g\<rparr>))
                | GpuArray a \<Rightarrow> (Inl DeviceError, s)
                | PyObject \<Rightarrow> (Inl AttributeError, s)))"

subsection \<open>Host to device\<close>

text \<open>
  The method \<^verbatim>\<open>to_device(image)\<close> allocates a buffer of the image's shape and has
  \<^verbatim>\<open>thr.to_device\<close> fill it from the host array. An object without \<^verbatim>\<open>shape\<close> fails
  before the allocation, a device array after it.
\<close>

definition to_device :: "nufft \<Rightarrow> pyval \<Rightarrow> pyval result" where
  "to_device s img =
     (let s0 = s\<lparr>n_to_device := Suc (n_to_device s)\<rparr> in
      case shape_of s0 img of
        Inl e \<Rightarrow> (Inl e, s0)
      | Inr shp \<Rightarrow>
          (case array s0 shp complex64 of (g_image, s1) \<Rightarrow>
             (case img of
                NdArray shp' d \<Rightarrow> (Inr (GpuArray g_image), put s1 g_image d)
              | GpuArray a \<Rightarrow> (Inl DeviceError, s1)
              | PyObject \<Rightarrow> (Inl AttributeError, s1))))"

subsection \<open>The stages\<close>

definition s2x :: "nufft \<Rightarrow> pyval \<Rightarrow> pyval result" where
  "s2x s v =
     (case array s (multi_Nd s) complex64 of (x, s1) \<Rightarrow>
        (case get s1 v of
           Inl e \<Rightarrow> (Inl e, s1)
         | Inr sv \<Rightarrow>
             (let s2 = put s1 x (cPopulate (prg s1) (batch s1) (Ndprod s1) (data sv)
                                    (data (thr s1 ! x)));
                  s3 = put s2 x (cMultiplyVecInplace 1 (data (thr s2 ! gpu_coil_profile s2))
                                    (data (thr s2 ! x)) (batch s2 * Ndprod s2))
              in (Inr (GpuArray x), s3))))"

definition x2xx :: "nufft \<Rightarrow> pyval \<Rightarrow> pyval result" where
  "x2xx s x =
     (case shape_of s x of
        Inl e \<Rightarrow> (Inl e, s)
      | Inr shp \<Rightarrow>
          (case array s shp complex64 of (xx, s1) \<Rightarrow>
             (case get s1 x of
                Inl e \<Rightarrow> (Inl e, s1)
              | Inr xv \<Rightarrow>
                  (let s2 = put s1 xx (data xv);
                       s3 = put s2 xx (cTensorMultiply (prg s2) (batch s2) (tSN s2)
                                         (data (thr s2 ! xx)) 0)
                   in (Inr (GpuArray xx), s3)))))"

definition xx2k :: "nufft \<Rightarrow> pyval \<Rightarrow> pyval result" where
  "xx2k s xx =
     (case array s (multi_Kd s) complex64 of (k, s1) \<Rightarrow>
        (let s2 = fill s1 k 0 in
         case get s2 xx of
           Inl e \<Rightarrow> (Inl e, s2)
         | Inr xv \<Rightarrow>
             (let s3 = put s2 k (cTensorCopy (prg s2) (batch s2) (ndims s2) (Nd s2) (Kd s2)
                                   (data xv) (data (thr s2 ! k)) 1);
                  s4 = put s3 k (fft (prg s3) (fft_shape s3) (ft_axes s3)
                                   (data (thr s3 ! k)) False)
              in (Inr (GpuArray k), s4))))"

definition k2y :: "nufft \<Rightarrow> pyval \<Rightarrow> pyval result" where
  "k2y s k =
     (case array s (multi_M s) complex64 of (y, s1) \<Rightarrow>
        (let s2 = fill s1 y 0 in
         case get s2 k of
           Inl e \<Rightarrow> (Inl e, s2)
         | Inr kv \<Rightarrow>
             (Inr (GpuArray y),
              put s2 y (pELL_spmv_mCoil (batch s2) (pELL s2) (data kv) (data (thr s2 ! y))))))"

text \<open>
  \<^verbatim>\<open>y2k\<close> scatters into two real arrays and returns \<^verbatim>\<open>kx + 1.0j * ky\<close>; the product and
  the sum are new device arrays. A real array holds its numbers as complex numbers
  without imaginary part.
\<close>

definition y2k :: "nufft \<Rightarrow> pyval \<Rightarrow> pyval result" where
  "y2k s y =
     (case array s (multi_Kd s) float32 of (kx, s1) \<Rightarrow>
      let s2 = fill s1 kx 0 in
      case array s2 (multi_Kd s2) float32 of (ky, s3) \<Rightarrow>
      let s4 = fill s3 ky 0 in
      case get s4 y of
        Inl e \<Rightarrow> (Inl e, s4)
      | Inr yv \<Rightarrow>
          (case pELL_spmvh_mCoil (prg s4) (batch s4) (pELL s4)
                  (map Re (data (thr s4 ! kx))) (map Re (data (thr s4 ! ky))) (data yv)
           of (rx, ry) \<Rightarrow>
             let s5 = put (put s4 kx (map complex_of_real rx)) ky (map complex_of_real ry) in
             case array s5 (multi_Kd s5) complex64 of (t, s6) \<Rightarrow>
             let s7 = put s6 t (map (\<lambda>c. \<i> * c) (data (thr s6 ! ky))) in
             case array s7 (multi_Kd s7) complex64 of (k, s8) \<Rightarrow>
               (Inr (GpuArray k),
                put s8 k (map2 (\<lambda>a c. a + c) (data (thr s8 ! kx)) (data (thr s8 ! t))))))"

definition k2xx :: "nufft \<Rightarrow> pyval \<Rightarrow> pyval result" where
  "k2xx s k =
     (case get s k of
        Inl e \<Rightarrow> (Inl e, s)
      | Inr kv \<Rightarrow>
          (case k of
             GpuArray ka \<Rightarrow>
               (let s1 = put s ka (fft (prg s) (fft_shape s) (ft_axes s) (data kv) True) in
                case array s1 (multi_Nd s1) complex64 of (xx, s2) \<Rightarrow>
                let s3 = fill s2 xx 0;
                    s4 = put s3 xx (cTensorCopy (prg s3) (batch s3) (ndims s3) (Nd s3) (Kd s3)
                                      (data (thr s3 ! ka)) (data (thr s3 ! xx)) (- 1))
                in (Inr (GpuArray xx), s4))
           | NdArray shp d \<Rightarrow> (Inl DeviceError, s)
           | PyObject \<Rightarrow> (Inl DeviceError, s)))"

definition xx2x :: "nufft \<Rightarrow> pyval \<Rightarrow> pyval result" where
  "xx2x s xx =
     (case shape_of s xx of
        Inl e \<Rightarrow> (Inl e, s)
      | Inr shp \<Rightarrow>
          (case array s shp complex64 of (x, s1) \<Rightarrow>
             (case get s1 xx of
                Inl e \<Rightarrow> (Inl e, s1)
              | Inr xv \<Rightarrow>
                  (let s2 = put s1 x (data xv);
                       s3 = put s2 x (cTensorMultiply (prg s2) (batch s2) (tSN s2)
                                        (data (thr s2 ! x)) 0)
                   in (Inr (GpuArray x), s3)))))"

definition x2s :: "nufft \<Rightarrow> pyval \<Rightarrow> pyval result" where
  "x2s s x =
     (case array s (st_Nd (st s)) complex64 of (sa, s1) \<Rightarrow>
        (case get s1 x of
           Inl e \<Rightarrow> (Inl e, s1)
         | Inr xv \<Rightarrow>
             (case x of
                GpuArray xa \<Rightarrow>
                  (let s2 = put s1 xa (cMultiplyConjVecInplace 1
                                         (data (thr s1 ! gpu_coil_profile s1)) (data xv)
                                         (batch s1 * Ndprod s1));
                       s3 = put s2 sa (cAggregate (prg s2) (batch s2) (Ndprod s2)
                                         (data (thr s2 ! xa)) (data (thr s2 ! sa)))
                   in (Inr (GpuArray sa), s3))
              | NdArray shp d \<Rightarrow> (Inl DeviceError, s1)
              | PyObject \<Rightarrow> (Inl DeviceError, s1))))"

subsection \<open>The entry points\<close>

text \<open>
  A \<^verbatim>\<open>try\<close> is a case split on the result of its body. In the inner handler of
  \<^verbatim>\<open>forward\<close> the test reads \<^verbatim>\<open>gxx.shape\<close>, a name that is bound nowhere: evaluating
  it raises \<open>NameError\<close>, which replaces the exception being handled.
\<close>

definition forward :: "nufft \<Rightarrow> pyval \<Rightarrow> pyval result" where
  "forward s gx =
     (case (case x2xx s gx of
              (Inr xx, s1) \<Rightarrow> (Inr xx, s1)
            | (Inl e, s1) \<Rightarrow>
                (case to_device s1 gx of
                   (Inl e2, s2) \<Rightarrow> (Inl NameError, s2)
                 | (Inr px, s2) \<Rightarrow>
                     (case x2xx s2 px of
                        (Inr xx, s3) \<Rightarrow> (Inr xx, s3)
                      | (Inl e3, s3) \<Rightarrow> (Inl NameError, s3))))
      of (Inl e, s') \<Rightarrow> (Inl e, s')
       | (Inr xx, s') \<Rightarrow>
           (case xx2k s' xx of
              (Inl e, s'') \<Rightarrow> (Inl e, s'')
            | (Inr k, s'') \<Rightarrow> k2y s'' k))"

text \<open>
  In the handlers of \<^verbatim>\<open>adjoint\<close> a bare \<^verbatim>\<open>raise\<close> follows the prints: it raises again
  the exception that the inner \<^verbatim>\<open>except\<close> is handling, which is the one raised inside
  the inner \<^verbatim>\<open>try\<close>.
\<close>

definition adjoint :: "nufft \<Rightarrow> pyval \<Rightarrow> pyval result" where
  "adjoint s gy =
     (case (case y2k s gy of
              (Inr k, s1) \<Rightarrow> (Inr k, s1)
            | (Inl e, s1) \<Rightarrow>
                (case to_device s1 gy of
                   (Inl e2, s2) \<Rightarrow> (Inl e2, s2)
                 | (Inr py, s2) \<Rightarrow>
                     (case y2k s2 py of
                        (Inr k, s3) \<Rightarrow> (Inr k, s3)
                      | (Inl e3, s3) \<Rightarrow> (Inl e3, s3))))
      of (Inl e, s') \<Rightarrow> (Inl e, s')
       | (Inr k, s') \<Rightarrow>
           (case k2xx s' k of
              (Inl e, s'') \<Rightarrow> (Inl e, s'')
            | (Inr xx, s'') \<Rightarrow> xx2x s'' xx))"

text \<open>
  The inner handler of \<^verbatim>\<open>forward_one2many\<close> reads \<^verbatim>\<open>s.shape\<close>; when it differs from
  \<open>Nd\<close> the print reads the local \<^verbatim>\<open>x\<close>, which no assignment has reached.
\<close>

definition one2many_handler :: "nufft \<Rightarrow> pyval \<Rightarrow> error \<Rightarrow> error" where
  "one2many_handler s v e =
     (case shape_of s v of
        Inl e' \<Rightarrow> e'
      | Inr shp \<Rightarrow> if shp \<noteq> Nd s then UnboundLocalError else e)"

definition forward_one2many :: "nufft \<Rightarrow> pyval \<Rightarrow> pyval result" where
  "forward_one2many s v =
     (case (case s2x s v of
              (Inr x, s1) \<Rightarrow> (Inr x, s1)
            | (Inl e, s1) \<Rightarrow>
                (case to_device s1 v of
                   (Inl e2, s2) \<Rightarrow> (Inl (one2many_handler s2 v e2), s2)
                 | (Inr ps, s2) \<Rightarrow>
                     (case s2x s2 ps of
                        (Inr x, s3) \<Rightarrow> (Inr x, s3)
                      | (Inl e3, s3) \<Rightarrow> (Inl (one2many_handler s3 v e3), s3))))
      of (Inl e, s') \<Rightarrow> (Inl e, s')
       | (Inr x, s') \<Rightarrow> forward s' x)"

definition adjoint_many2one :: "nufft \<Rightarrow> pyval \<Rightarrow> pyval result" where
  "adjoint_many2one s y =
     (case (case adjoint s y of
              (Inr x, s1) \<Rightarrow> (Inr x, s1)
            | (Inl e, s1) \<Rightarrow>
                (case to_device s1 y of
                   (Inl e2, s2) \<Rightarrow> (Inl e2, s2)
                 | (Inr py, s2) \<Rightarrow>
                     (case adjoint s2 py of
                        (Inr x, s3) \<Rightarrow> (Inr x, s3)
                      | (Inl e3, s3) \<Rightarrow> (Inl e3, s3))))
      of (Inl e, s') \<Rightarrow> (Inl e, s')
       | (Inr x, s') \<Rightarrow> x2s s' x)"

definition selfadjoint :: "nufft \<Rightarrow> pyval \<Rightarrow> pyval result" where
  "selfadjoint s gx =
     (case forward s gx of
        (Inl e, s1) \<Rightarrow> (Inl e, s1)
      | (Inr gy, s1) \<Rightarrow> adjoint s1 gy)"

definition selfadjoint_one2many2one :: "nufft \<Rightarrow> pyval \<Rightarrow> pyval result" where
  "selfadjoint_one2many2one s gx =
     (case forward_one2many s gx of
        (Inl e, s1) \<Rightarrow> (Inl e, s1)
      | (Inr gy, s1) \<Rightarrow> adjoint_many2one s1 gy)"

subsection \<open>Notions used in the statements\<close>

text \<open>Running a stage on the array that the previous one returned, if it returned.\<close>

definition andThen :: "'a result \<Rightarrow> (nufft \<Rightarrow> 'a \<Rightarrow> 'b result) \<Rightarrow> 'b result" where
  "andThen r f = (case r of (Inl e, s) \<Rightarrow> (Inl e, s) | (Inr v, s) \<Rightarrow> f s v)"

text \<open>
  A planned instance: what \<open>plan\<close> with planner result \<open>p\<close> and batch argument \<open>bo\<close>
  establishes and every method keeps. The shapes are \<open>Nd\<close>, \<open>Kd\<close>, \<open>(M,)\<close> without a
  batch argument and \<open>Nd + (batch,)\<close>, \<open>Kd + (batch,)\<close>, \<open>(M, batch)\<close> with one, and the
  coil profile is a device buffer of shape \<open>multi_Nd\<close>.
\<close>

definition planned :: "st \<Rightarrow> nat option \<Rightarrow> nufft \<Rightarrow> bool" where
  "planned p bo s \<longleftrightarrow>
     st s = p \<and> Nd s = st_Nd p \<and> Kd s = st_Kd p \<and> M s = st_M p \<and>
     pELL s = st_pELL p \<and> tSN s = st_tSN p \<and>
     Ndprod s = prod_list (st_Nd p) \<and> Kdprod s = prod_list (st_Kd p) \<and>
     batch s = (case bo of None \<Rightarrow> 1 | Some n \<Rightarrow> n) \<and>
     multi_Nd s = (case bo of None \<Rightarrow> st_Nd p | Some n \<Rightarrow> st_Nd p @ [n]) \<and>
     multi_Kd s = (case bo of None \<Rightarrow> st_Kd p | Some n \<Rightarrow> st_Kd p @ [n]) \<and>
     multi_M s = (case bo of None \<Rightarrow> [st_M p] | Some n \<Rightarrow> [st_M p, n]) \<and>
     gpu_coil_profile s < length (thr s) \<and>
     shape (thr s ! gpu_coil_profile s) = multi_Nd s"

text \<open>
  The second state has the plan of the first, the same coil profile handle, and all
  the buffers of the first, with their shapes.
\<close>

definition keeps :: "nufft \<Rightarrow> nufft \<Rightarrow> bool" where
  "keeps s s' \<longleftrightarrow>
     st s' = st s \<and> Nd s' = Nd s \<and> Kd s' = Kd s \<and> M s' = M s \<and>
     pELL s' = pELL s \<and> tSN s' = tSN s \<and>
     Ndprod s' = Ndprod s \<and> Kdprod s' = Kdprod s \<and> batch s' = batch s \<and>
     multi_Nd s' = multi_Nd s \<and> multi_Kd s' = multi_Kd s \<and> multi_M s' = multi_M s \<and>
     gpu_coil_profile s' = gpu_coil_profile s \<and>
     length (thr s) \<le> length (thr s') \<and>
     list_all (\<lambda>i. shape (thr s' ! i) = shape (thr s ! i)) [0..<length (thr s)]"

subsection \<open>A small instance\<close>

text \<open>
  One axis, two pixels, a grid of four cells, two samples with two neighbours each.
  The kernels are simple one-axis versions: scaling by the tensor, copying into the
  leading cells, the four-point transform, the scatter with conjugated weights, and the
  replication and the sum over channels.
\<close>

definition demo_pELL :: pELL where
  "demo_pELL = \<lparr>nRow = 2, prodJd = 2, sumJd = 2, dim = 1,
                 neighborIndex = (\<lambda>m j. (m + j) mod 4),
                 weight = (\<lambda>m j. if j = 0 then 1 else \<i>)\<rparr>"

definition demo_tSN :: tSN where
  "demo_tSN = \<lparr>Td_elements = [1], invTd_elements = [1], Td = [2], Tdims = 1,
                tensor_sn = [2, 3]\<rparr>"

definition demo_st :: st where
  "demo_st = \<lparr>st_Nd = [2], st_Kd = [4], st_Jd = [2], st_M = 2,
               st_pELL = demo_pELL, st_tSN = demo_tSN\<rparr>"

definition demo_scatter :: "nat \<Rightarrow> pELL \<Rightarrow> complex list \<Rightarrow> nat \<Rightarrow> complex" where
  "demo_scatter b p y i =
     sum_list (map (\<lambda>m. sum_list (map (\<lambda>j.
         if neighborIndex p m j = i div b \<and> m * b + i mod b < length y
         then cnj (weight p m j) * y ! (m * b + i mod b) else 0) [0..<prodJd p]))
       [0..<nRow p])"

definition demo_prg :: program where
  "demo_prg =
     \<lparr>cPopulate = (\<lambda>b n s x.
          map (\<lambda>i. if i < b * n \<and> i div b < length s then s ! (i div b) else x ! i)
            [0..<length x]),
      cTensorMultiply = (\<lambda>b t xx flag.
          map (\<lambda>i. if i div b < length (tensor_sn t)
                    then xx ! i * complex_of_real (tensor_sn t ! (i div b)) else xx ! i)
            [0..<length xx]),
      cTensorCopy = (\<lambda>b nd n k src dst dir.
          map (\<lambda>i. if i < length src then src ! i else dst ! i) [0..<length dst]),
      pELL_spmvh_mCoil = (\<lambda>b p kx ky y.
          (map (\<lambda>i. kx ! i + Re (demo_scatter b p y i)) [0..<length kx],
           map (\<lambda>i. ky ! i + Im (demo_scatter b p y i)) [0..<length ky])),
      cAggregate = (\<lambda>b n x s.
          map (\<lambda>v. sum_list (map (\<lambda>c. if v * b + c < length x then x ! (v * b + c) else 0)
                                 [0..<b])) [0..<length s]),
      fft = (\<lambda>shp axes xs inv.
          case xs of
            [a, b, c, d] \<Rightarrow>
              if inv then [a + b + c + d, a + \<i> * b - c - \<i> * d,
                           a - b + c - d, a - \<i> * b - c + \<i> * d]
              else [a + b + c + d, a - \<i> * b - c + \<i> * d,
                    a - b + c - d, a + \<i> * b - c - \<i> * d]
          | _ \<Rightarrow> xs)\<rparr>"

text \<open>The instance as the constructor leaves it: no device buffer, no plan yet.\<close>

definition demo0 :: nufft where
  "demo0 = \<lparr>thr = [], uninit = (\<lambda>a i. 7), n_to_device = 0, prg = demo_prg,
             ndims = 0, ft_axes = [], st = demo_st, parallel_flag = 0, batch = 0,
             Nd = [], Kd = [], multi_Nd = [], multi_Kd = [], multi_M = [],
             Kdprod = 0, Jdprod = 0, Ndprod = 0, M = 0, pELL = demo_pELL, tSN = demo_tSN,
             gpu_coil_profile = 0, fft_shape = []\<rparr>"

text \<open>
  Planned without a batch and with a batch of two; then a two-element array is put on
  the device of the first, where it gets handle 1 (handle 0 is the coil profile).
\<close>

definition demo :: nufft where
  "demo = plan demo0 demo_st None None"

definition demo_batch :: nufft where
  "demo_batch = plan demo0 demo_st None (Some 2)"

definition demo_gx :: nufft where
  "demo_gx = snd (to_device demo (NdArray [2] [2, 3 * \<i>]))"

text \<open>A grid array of four cells on the device of the first instance, handle 1.\<close>

definition demo_k :: nufft where
  "demo_k = snd (to_device demo (NdArray [4] [1, 2, 3, 4]))"

text \<open>A two-channel image on the device of the batched instance, handle 1.\<close>

definition demo_bx :: nufft where
  "demo_bx = snd (to_device demo_batch (NdArray [2, 2] [1, 2 * \<i>, 3, 4]))"

section \<open>Properties\<close>

subsection \<open>The stages on a device array\<close>

lemmas ctx_defs = array_def put_def fill_def get_def shape_of_def



lemma x2xx_dev:
  assumes "a < length (thr s)"
  shows "x2xx s (GpuArray a) =
     (Inr (GpuArray (length (thr s))),
      s\<lparr>thr := thr s @ [\<lparr>shape = shape (thr s ! a), dtype = complex64,
            data = cTensorMultiply (prg s) (batch s) (tSN s) (data (thr s ! a)) 0\<rparr>]\<rparr>)"
  using assms by (simp add: x2xx_def ctx_defs Let_def nth_append)

lemma xx2k_dev:
  assumes "a < length (thr s)"
  shows "xx2k s (GpuArray a) =
     (Inr (GpuArray (length (thr s))),
      s\<lparr>thr := thr s @ [\<lparr>shape = multi_Kd s, dtype = complex64,
            data = fft (prg s) (fft_shape s) (ft_axes s)
                     (cTensorCopy (prg s) (batch s) (ndims s) (Nd s) (Kd s) (data (thr s ! a))
                        (replicate (prod_list (multi_Kd s)) 0) 1) False\<rparr>]\<rparr>)"
  using assms by (simp add: xx2k_def ctx_defs Let_def nth_append)

lemma k2y_dev:
  assumes "a < length (thr s)"
  shows "k2y s (GpuArray a) =
     (Inr (GpuArray (length (thr s))),
      s\<lparr>thr := thr s @ [\<lparr>shape = multi_M s, dtype = complex64,
            data = pELL_spmv_mCoil (batch s) (pELL s) (data (thr s ! a))
                     (replicate (prod_list (multi_M s)) 0)\<rparr>]\<rparr>)"
  using assms by (simp add: k2y_def ctx_defs Let_def nth_append)

lemma xx2x_dev:
  assumes "a < length (thr s)"
  shows "xx2x s (GpuArray a) =
     (Inr (GpuArray (length (thr s))),
      s\<lparr>thr := thr s @ [\<lparr>shape = shape (thr s ! a), dtype = complex64,
            data = cTensorMultiply (prg s) (batch s) (tSN s) (data (thr s ! a)) 0\<rparr>]\<rparr>)"
  using assms by (simp add: xx2x_def ctx_defs Let_def nth_append)

lemma k2xx_dev:
  assumes "a < length (thr s)"
  shows "k2xx s (GpuArray a) =
     (Inr (GpuArray (length (thr s))),
      s\<lparr>thr := (thr s)[a := (thr s ! a)\<lparr>data := fft (prg s) (fft_shape s) (ft_axes s) (data (thr s ! a)) True\<rparr>]
              @ [\<lparr>shape = multi_Nd s, dtype = complex64,
            data = cTensorCopy (prg s) (batch s) (ndims s) (Nd s) (Kd s)
                     (fft (prg s) (fft_shape s) (ft_axes s) (data (thr s ! a)) True)
                     (replicate (prod_list (multi_Nd s)) 0) (- 1)\<rparr>]\<rparr>)"
  using assms by (simp add: k2xx_def ctx_defs Let_def nth_append)


lemma y2k_dev:
  assumes "a < length (thr s)"
  shows "y2k s (GpuArray a) =
     (let z = replicate (prod_list (multi_Kd s)) 0;
          r = pELL_spmvh_mCoil (prg s) (batch s) (pELL s) z z (data (thr s ! a));
          kx = map complex_of_real (fst r);
          ky = map complex_of_real (snd r);
          t = map (\<lambda>c. \<i> * c) ky
      in (Inr (GpuArray (length (thr s) + 3)),
          s\<lparr>thr := thr s @
             [\<lparr>shape = multi_Kd s, dtype = float32, data = kx\<rparr>,
              \<lparr>shape = multi_Kd s, dtype = float32, data = ky\<rparr>,
              \<lparr>shape = multi_Kd s, dtype = complex64, data = t\<rparr>,
              \<lparr>shape = multi_Kd s, dtype = complex64, data = map2 (\<lambda>a c. a + c) kx t\<rparr>]\<rparr>))"
  using assms
  by (simp add: y2k_def ctx_defs Let_def nth_append list_update_append split: prod.splits)


lemma s2x_dev:
  assumes "a < length (thr s)"
  shows "s2x s (GpuArray a) =
     (let x0 = map (uninit s (length (thr s))) [0..<prod_list (multi_Nd s)];
          x1 = cPopulate (prg s) (batch s) (Ndprod s) (data (thr s ! a)) x0;
          h1 = thr s @ [\<lparr>shape = multi_Nd s, dtype = complex64, data = x1\<rparr>]
      in (Inr (GpuArray (length (thr s))),
          s\<lparr>thr := thr s @ [\<lparr>shape = multi_Nd s, dtype = complex64,
                data = cMultiplyVecInplace 1 (data (h1 ! gpu_coil_profile s)) x1
                         (batch s * Ndprod s)\<rparr>]\<rparr>))"
  using assms
  by (simp add: s2x_def ctx_defs Let_def nth_append list_update_append split: prod.splits)

lemma x2s_dev:
  assumes "a < length (thr s)"
  shows "x2s s (GpuArray a) =
     (let x1 = cMultiplyConjVecInplace 1
                 (data ((thr s @ [\<lparr>shape = st_Nd (st s), dtype = complex64,
                      data = map (uninit s (length (thr s))) [0..<prod_list (st_Nd (st s))]\<rparr>])
                        ! gpu_coil_profile s))
                 (data (thr s ! a)) (batch s * Ndprod s)
      in (Inr (GpuArray (length (thr s))),
          s\<lparr>thr := (thr s)[a := (thr s ! a)\<lparr>data := x1\<rparr>] @
               [\<lparr>shape = st_Nd (st s), dtype = complex64,
                 data = cAggregate (prg s) (batch s) (Ndprod s) x1
                          (map (uninit s (length (thr s))) [0..<prod_list (st_Nd (st s))])\<rparr>]\<rparr>))"
  using assms
  by (simp add: x2s_def ctx_defs Let_def nth_append list_update_append split: prod.splits)

lemma to_device_host:
  "to_device s (NdArray shp d) =
     (Inr (GpuArray (length (thr s))),
      s\<lparr>n_to_device := Suc (n_to_device s),
        thr := thr s @ [\<lparr>shape = shp, dtype = complex64, data = d\<rparr>]\<rparr>)"
  by (simp add: to_device_def ctx_defs Let_def nth_append list_update_append)

lemma to_device_obj:
  "to_device s PyObject = (Inl AttributeError, s\<lparr>n_to_device := Suc (n_to_device s)\<rparr>)"
  by (simp add: to_device_def ctx_defs Let_def)




subsection \<open>What every method keeps\<close>

lemma keeps_refl: "keeps s s"
  by (simp add: keeps_def list_all_iff)

lemma keeps_trans: "keeps s s1 \<Longrightarrow> keeps s1 s2 \<Longrightarrow> keeps s s2"
  by (auto simp: keeps_def list_all_iff)

lemma keeps_array: "keeps s s0 \<Longrightarrow> array s0 shp dt = (g, s1) \<Longrightarrow> keeps s s1"
  by (auto simp: keeps_def array_def list_all_iff nth_append)

lemma shape_rewrite: "shape (xs[a := (xs ! a)\<lparr>data := d\<rparr>] ! i) = shape (xs ! i)"
  by (cases "a < length xs") (simp_all add: nth_list_update list_update_beyond)

lemma keeps_put: "keeps s s1 \<Longrightarrow> keeps s (put s1 a d)"
  by (simp add: keeps_def put_def list_all_iff shape_rewrite)

lemma keeps_fill: "keeps s s1 \<Longrightarrow> keeps s (fill s1 a v)"
  by (simp add: fill_def keeps_put)

lemma keeps_count: "keeps s s1 \<Longrightarrow> keeps s (s1\<lparr>n_to_device := n\<rparr>)"
  by (simp add: keeps_def list_all_iff)

lemmas keeps_intros = keeps_put keeps_fill keeps_count keeps_refl

lemma keeps_to_device: "to_device s v = (r, s') \<Longrightarrow> keeps s s'"
  by (auto simp: to_device_def Let_def split: sum.splits pyval.splits prod.splits
      intro!: keeps_intros elim: keeps_array[rotated])

lemma keeps_x2xx: "x2xx s v = (r, s') \<Longrightarrow> keeps s s'"
  by (auto simp: x2xx_def Let_def split: sum.splits pyval.splits prod.splits
      intro!: keeps_intros elim: keeps_array[rotated])

lemma keeps_xx2x: "xx2x s v = (r, s') \<Longrightarrow> keeps s s'"
  by (auto simp: xx2x_def Let_def split: sum.splits pyval.splits prod.splits
      intro!: keeps_intros elim: keeps_array[rotated])

lemma keeps_xx2k: "xx2k s v = (r, s') \<Longrightarrow> keeps s s'"
  by (auto simp: xx2k_def Let_def split: sum.splits pyval.splits prod.splits
      intro!: keeps_intros elim: keeps_array[rotated])

lemma keeps_k2y: "k2y s v = (r, s') \<Longrightarrow> keeps s s'"
  by (auto simp: k2y_def Let_def split: sum.splits pyval.splits prod.splits
      intro!: keeps_intros elim: keeps_array[rotated])

lemma keeps_y2k: "y2k s v = (r, s') \<Longrightarrow> keeps s s'"
  by (auto simp: y2k_def Let_def keeps_def ctx_defs list_all_iff nth_append nth_list_update
      split: sum.splits pyval.splits prod.splits if_splits)

lemma keeps_k2xx: "k2xx s v = (r, s') \<Longrightarrow> keeps s s'"
  by (auto simp: k2xx_def Let_def split: sum.splits pyval.splits prod.splits
      intro!: keeps_intros elim: keeps_array[rotated])

lemma keeps_s2x: "s2x s v = (r, s') \<Longrightarrow> keeps s s'"
  by (auto simp: s2x_def Let_def split: sum.splits pyval.splits prod.splits
      intro!: keeps_intros elim: keeps_array[rotated])

lemma keeps_x2s: "x2s s v = (r, s') \<Longrightarrow> keeps s s'"
  by (auto simp: x2s_def Let_def split: sum.splits pyval.splits prod.splits
      intro!: keeps_intros elim: keeps_array[rotated])


lemma keeps_forward: "forward s v = (r, s') \<Longrightarrow> keeps s s'"
  unfolding forward_def
  by (auto split: prod.splits sum.splits dest!: keeps_x2xx keeps_to_device keeps_xx2k keeps_k2y;
      blast intro: keeps_trans)

lemma keeps_adjoint: "adjoint s v = (r, s') \<Longrightarrow> keeps s s'"
  unfolding adjoint_def
  by (auto split: prod.splits sum.splits dest!: keeps_y2k keeps_to_device keeps_k2xx keeps_xx2x;
      blast intro: keeps_trans)

lemma keeps_forward_one2many: "forward_one2many s v = (r, s') \<Longrightarrow> keeps s s'"
  unfolding forward_one2many_def
  by (auto split: prod.splits sum.splits dest!: keeps_s2x keeps_to_device keeps_forward;
      blast intro: keeps_trans)

lemma keeps_adjoint_many2one: "adjoint_many2one s v = (r, s') \<Longrightarrow> keeps s s'"
  unfolding adjoint_many2one_def
  by (auto split: prod.splits sum.splits dest!: keeps_x2s keeps_to_device keeps_adjoint;
      blast intro: keeps_trans)

lemma keeps_selfadjoint: "selfadjoint s v = (r, s') \<Longrightarrow> keeps s s'"
  unfolding selfadjoint_def
  by (auto split: prod.splits sum.splits dest!: keeps_forward keeps_adjoint;
      blast intro: keeps_trans)

lemma keeps_selfadjoint_one2many2one: "selfadjoint_one2many2one s v = (r, s') \<Longrightarrow> keeps s s'"
  unfolding selfadjoint_one2many2one_def
  by (auto split: prod.splits sum.splits dest!: keeps_forward_one2many keeps_adjoint_many2one;
      blast intro: keeps_trans)


lemma planned_keeps: "planned p bo s \<Longrightarrow> keeps s s' \<Longrightarrow> planned p bo s'"
  by (auto simp: planned_def keeps_def list_all_iff)

lemma planned_plan: "planned p bo (plan s0 p axes bo)"
  by (cases bo) (simp_all add: planned_def plan_def offload_def Let_def ctx_defs nth_append)

lemma planned_set_sense: "planned p bo s \<Longrightarrow> set_sense s v = (r, s') \<Longrightarrow> planned p bo s'"
  by (auto simp: planned_def set_sense_def ctx_defs nth_append
      split: sum.splits pyval.splits if_splits)

subsection \<open>The entry points on a device array\<close>

lemma forward_dev:
  assumes "a < length (thr s)"
  shows "forward s (GpuArray a) =
    (Inr (GpuArray (length (thr s) + 2)),
     s\<lparr>thr := thr s @
        [\<lparr>shape = shape (thr s ! a), dtype = complex64,
           data = cTensorMultiply (prg s) (batch s) (tSN s) (data (thr s ! a)) 0\<rparr>,
         \<lparr>shape = multi_Kd s, dtype = complex64,
           data = fft (prg s) (fft_shape s) (ft_axes s)
                    (cTensorCopy (prg s) (batch s) (ndims s) (Nd s) (Kd s)
                       (cTensorMultiply (prg s) (batch s) (tSN s) (data (thr s ! a)) 0)
                       (replicate (prod_list (multi_Kd s)) 0) 1) False\<rparr>,
         \<lparr>shape = multi_M s, dtype = complex64,
           data = pELL_spmv_mCoil (batch s) (pELL s)
                    (fft (prg s) (fft_shape s) (ft_axes s)
                       (cTensorCopy (prg s) (batch s) (ndims s) (Nd s) (Kd s)
                          (cTensorMultiply (prg s) (batch s) (tSN s) (data (thr s ! a)) 0)
                          (replicate (prod_list (multi_Kd s)) 0) 1) False)
                    (replicate (prod_list (multi_M s)) 0)\<rparr>]\<rparr>)"
  using assms by (simp add: forward_def x2xx_dev xx2k_dev k2y_dev nth_append)

lemma adjoint_dev_thr:
  assumes "a < length (thr s)"
  shows "\<exists>bs. length bs = 6 \<and> thr (snd (adjoint s (GpuArray a))) = thr s @ bs \<and>
          shape (bs ! 5) = multi_Nd s \<and>
          fst (adjoint s (GpuArray a)) = Inr (GpuArray (length (thr s) + 5))"
  using assms
  by (simp add: adjoint_def y2k_dev k2xx_dev xx2x_dev Let_def nth_append list_update_append)

lemma spmv_nth:
  assumes "i < length y" and "i < nRow p * b"
  shows "pELL_spmv_mCoil b p k y ! i =
     (\<Sum>j<prodJd p. weight p (i div b) j *
        (if neighborIndex p (i div b) j * b + i mod b < length k
         then k ! (neighborIndex p (i div b) j * b + i mod b) else 0))"
proof -
  have "pELL_spmv_mCoil b p k y ! i =
      sum_list (map (\<lambda>j. weight p (i div b) j *
        (if neighborIndex p (i div b) j * b + i mod b < length k
         then k ! (neighborIndex p (i div b) j * b + i mod b) else 0)) [0..<prodJd p])"
    using assms by (simp add: pELL_spmv_mCoil_def Let_def)
  also have "\<dots> = (\<Sum>j<prodJd p. weight p (i div b) j *
        (if neighborIndex p (i div b) j * b + i mod b < length k
         then k ! (neighborIndex p (i div b) j * b + i mod b) else 0))"
    by (simp add: interv_sum_list_conv_sum_set_nat atLeast0LessThan)
  finally show ?thesis .
qed

lemma cell_bound: "(c::nat) < n \<Longrightarrow> b < w \<Longrightarrow> c * w + b < n * w"
proof -
  assume c: "c < n" and b: "b < w"
  have "c * w + b < c * w + w" using b by simp
  also have "\<dots> = Suc c * w" by simp
  also have "\<dots> \<le> n * w" using c by (intro mult_le_mono1) simp
  finally show ?thesis .
qed

subsection \<open>The coil profile\<close>


lemma multiply_by_conj_ones: "cMultiplyConjVecInplace (Suc 0) (replicate l 1) x n = x"
  by (rule nth_equalityI) (simp_all add: cMultiplyConjVecInplace_def)



subsection \<open>The fallback\<close>



















subsection \<open>The small instance\<close>

lemmas demo_defs = demo_def demo_batch_def demo_gx_def demo0_def demo_st_def demo_pELL_def demo_tSN_def
  demo_prg_def demo_scatter_def plan_def offload_def

lemma demo_gx_len: "length (thr demo_gx) = 2"
  by (simp add: demo_defs to_device_host ctx_defs)

lemma planned_demo_gx: "planned demo_st None demo_gx"
  unfolding demo_gx_def demo_def
  by (rule planned_keeps[OF planned_plan keeps_to_device]) (rule surjective_pairing)

lemma planned_demo_k: "planned demo_st None demo_k"
  unfolding demo_k_def demo_def
  by (rule planned_keeps[OF planned_plan keeps_to_device]) (rule surjective_pairing)

lemma demo_k_thr: "thr demo_k =
    [\<lparr>shape = [2], dtype = complex64, data = [1, 1]\<rparr>,
     \<lparr>shape = [4], dtype = complex64, data = [1, 2, 3, 4]\<rparr>]"
  by (simp add: demo_k_def demo_defs to_device_host ctx_defs numeral_2_eq_2)

lemma demo_k_batch: "batch demo_k = 1"
  by (simp add: demo_k_def demo_defs to_device_host ctx_defs)

lemma demo_thr: "thr demo = [\<lparr>shape = [2], dtype = complex64, data = replicate 2 1\<rparr>]"
  by (simp add: demo_defs ctx_defs)

lemma demo_fields:
  "Nd demo = [2]" "batch demo = 1" "multi_Nd demo = [2]" "gpu_coil_profile demo = 0"
  "n_to_device demo = 0"
  by (simp_all add: demo_defs ctx_defs)

lemma planned_demo: "planned demo_st None demo"
  unfolding demo_def by (rule planned_plan)

lemma planned_demo_bx: "planned demo_st (Some 2) demo_bx"
  unfolding demo_bx_def demo_batch_def
  by (rule planned_keeps[OF planned_plan keeps_to_device]) (rule surjective_pairing)

lemma demo_bx_thr: "thr demo_bx =
    [\<lparr>shape = [2, 2], dtype = complex64, data = replicate 4 1\<rparr>,
     \<lparr>shape = [2, 2], dtype = complex64, data = [1, 2 * \<i>, 3, 4]\<rparr>]"
  by (simp add: demo_bx_def demo_defs to_device_host ctx_defs)

lemma demo_bx_fields: "gpu_coil_profile demo_bx = 0" "batch demo_bx = 2" "Ndprod demo_bx = 2"
  by (simp_all add: demo_bx_def demo_defs to_device_host ctx_defs)



subsection \<open>The pipelines\<close>

text \<open>
  C1. For a device array \<open>a\<close> of the context, \<open>forward\<close> is the code path
  \<open>k2y(xx2k(x2xx(a)))\<close>: the first attempt of \<open>x2xx\<close> succeeds, so there is no host
  transfer, and the returned array (the third buffer allocated by the call) holds the
  gather kernel applied to the transform of the zero-padded copy of the scaled input,
  and nothing else. The shape of the input plays no part: no stage tests it.
\<close>

theorem forward_is_k2y_xx2k_x2xx:
  assumes "a < length (thr s)"
  shows "forward s (GpuArray a) = andThen (andThen (x2xx s (GpuArray a)) xx2k) k2y \<and>
         fst (forward s (GpuArray a)) = Inr (GpuArray (length (thr s) + 2)) \<and>
         data (thr (snd (forward s (GpuArray a))) ! (length (thr s) + 2)) =
           pELL_spmv_mCoil (batch s) (pELL s)
             (fft (prg s) (fft_shape s) (ft_axes s)
                (cTensorCopy (prg s) (batch s) (ndims s) (Nd s) (Kd s)
                   (cTensorMultiply (prg s) (batch s) (tSN s) (data (thr s ! a)) 0)
                   (replicate (prod_list (multi_Kd s)) 0) 1) False)
             (replicate (prod_list (multi_M s)) 0) \<and>
         n_to_device (snd (forward s (GpuArray a))) = n_to_device s"
  using assms
  by (simp add: forward_def andThen_def x2xx_dev xx2k_dev k2y_dev nth_append)

theorem forward_is_k2y_xx2k_x2xx_witness:
  "1 < length (thr demo_gx) \<and>
   forward demo_gx (GpuArray 1) = andThen (andThen (x2xx demo_gx (GpuArray 1)) xx2k) k2y \<and>
   fst (forward demo_gx (GpuArray 1)) = Inr (GpuArray (length (thr demo_gx) + 2))"
proof -
  have h: "1 < length (thr demo_gx)" by (simp add: demo_gx_len)
  show ?thesis using h forward_is_k2y_xx2k_x2xx[OF h] by blast
qed

text \<open>
  C2. For a device array \<open>a\<close>, \<open>adjoint\<close> is the code path \<open>xx2x(k2xx(y2k(a)))\<close>: the
  scatter kernel runs on two zero-filled real grids, which are combined into the complex
  grid \<open>kx + i ky\<close>; the inverse transform and the copy back to \<open>multi_Nd\<close> follow, and
  the last stage \<open>xx2x\<close> is the same function as the entry stage \<open>x2xx\<close> of \<open>forward\<close>.
\<close>

theorem adjoint_is_xx2x_k2xx_y2k:
  assumes "a < length (thr s)"
  shows "adjoint s (GpuArray a) = andThen (andThen (y2k s (GpuArray a)) k2xx) xx2x \<and>
         xx2x = x2xx \<and>
         fst (adjoint s (GpuArray a)) = Inr (GpuArray (length (thr s) + 5)) \<and>
         data (thr (snd (adjoint s (GpuArray a))) ! (length (thr s) + 5)) =
           (let z = replicate (prod_list (multi_Kd s)) 0;
                r = pELL_spmvh_mCoil (prg s) (batch s) (pELL s) z z (data (thr s ! a));
                k = map2 (\<lambda>x y. x + y) (map complex_of_real (fst r))
                      (map (\<lambda>c. \<i> * c) (map complex_of_real (snd r)))
            in cTensorMultiply (prg s) (batch s) (tSN s)
                 (cTensorCopy (prg s) (batch s) (ndims s) (Nd s) (Kd s)
                    (fft (prg s) (fft_shape s) (ft_axes s) k True)
                    (replicate (prod_list (multi_Nd s)) 0) (- 1)) 0) \<and>
         n_to_device (snd (adjoint s (GpuArray a))) = n_to_device s"
proof -
  have "xx2x = x2xx"
    by (intro ext) (simp add: xx2x_def x2xx_def)
  then show ?thesis
    using assms
    by (simp add: adjoint_def andThen_def y2k_dev k2xx_dev x2xx_dev Let_def nth_append)
qed

theorem adjoint_is_xx2x_k2xx_y2k_witness:
  "1 < length (thr demo_gx) \<and>
   adjoint demo_gx (GpuArray 1) = andThen (andThen (y2k demo_gx (GpuArray 1)) k2xx) xx2x \<and>
   fst (adjoint demo_gx (GpuArray 1)) = Inr (GpuArray (length (thr demo_gx) + 5))"
proof -
  have h: "1 < length (thr demo_gx)" by (simp add: demo_gx_len)
  show ?thesis using h adjoint_is_xx2x_k2xx_y2k[OF h] by blast
qed

text \<open>
  C3. \<open>selfadjoint\<close> is \<open>adjoint\<close> run on the result of \<open>forward\<close>, in the state that
  \<open>forward\<close> leaves, for every input and every instance; the instance has no field
  that could hold a precomputed operator. \<open>selfadjoint_one2many2one\<close> is
  \<open>adjoint_many2one\<close> run on the result of \<open>forward_one2many\<close>.
\<close>

theorem selfadjoint_is_adjoint_of_forward:
  "selfadjoint s x = andThen (forward s x) adjoint \<and>
   selfadjoint_one2many2one s x = andThen (forward_one2many s x) adjoint_many2one"
  by (simp add: selfadjoint_def selfadjoint_one2many2one_def andThen_def)

subsection \<open>The gather\<close>

text \<open>
  C4. On a planned instance whose interpolator has one row per sample, let \<open>a\<close> be a
  device array with one element per grid cell and batch, and let every neighbour index of
  sample \<open>m\<close> lie on the grid. Then \<open>k2y\<close> returns a new array of shape \<open>multi_M\<close>, which
  is the gather kernel run on an output filled with zeros, and its element \<open>[m, b]\<close> is
  the sum over the \<open>prodJd\<close> neighbours \<open>j\<close> of \<open>weight[m, j] * k[neighborIndex[m, j], b]\<close>.
\<close>

theorem k2y_gathers_prodJd_neighbours:
  assumes "planned p bo s"
    and "nRow (st_pELL p) = st_M p"
    and "a < length (thr s)"
    and "length (data (thr s ! a)) = prod_list (st_Kd p) * batch s"
    and "m < st_M p" and "b < batch s"
    and "\<forall>j<prodJd (st_pELL p). neighborIndex (st_pELL p) m j < prod_list (st_Kd p)"
  shows "fst (k2y s (GpuArray a)) = Inr (GpuArray (length (thr s))) \<and>
         thr (snd (k2y s (GpuArray a))) ! length (thr s) =
           \<lparr>shape = multi_M s, dtype = complex64,
             data = pELL_spmv_mCoil (batch s) (pELL s) (data (thr s ! a))
                      (replicate (prod_list (multi_M s)) 0)\<rparr> \<and>
         length (data (thr (snd (k2y s (GpuArray a))) ! length (thr s))) = st_M p * batch s \<and>
         data (thr (snd (k2y s (GpuArray a))) ! length (thr s)) ! (m * batch s + b) =
           (\<Sum>j<prodJd (st_pELL p). weight (st_pELL p) m j *
              data (thr s ! a) ! (neighborIndex (st_pELL p) m j * batch s + b))"
proof -
  from assms(1) have pl: "pELL s = st_pELL p"
    and mm: "prod_list (multi_M s) = st_M p * batch s"
    by (auto simp: planned_def split: option.splits)
  let ?y = "pELL_spmv_mCoil (batch s) (pELL s) (data (thr s ! a))
              (replicate (prod_list (multi_M s)) 0)"
  have ly: "length ?y = st_M p * batch s"
    by (simp add: pELL_spmv_mCoil_def mm)
  have i: "m * batch s + b < st_M p * batch s"
    using assms(5,6) by (rule cell_bound)
  have dv: "(m * batch s + b) div batch s = m" "(m * batch s + b) mod batch s = b"
    using assms(6) by simp_all
  have "?y ! (m * batch s + b) =
      (\<Sum>j<prodJd (st_pELL p). weight (st_pELL p) m j *
         (if neighborIndex (st_pELL p) m j * batch s + b < length (data (thr s ! a))
          then data (thr s ! a) ! (neighborIndex (st_pELL p) m j * batch s + b) else 0))"
    using i assms(2,6) by (simp add: spmv_nth mm pl dv cong: if_cong)
  also have "\<dots> = (\<Sum>j<prodJd (st_pELL p). weight (st_pELL p) m j *
              data (thr s ! a) ! (neighborIndex (st_pELL p) m j * batch s + b))"
  proof (rule sum.cong)
    fix j assume "j \<in> {..<prodJd (st_pELL p)}"
    then have "neighborIndex (st_pELL p) m j < prod_list (st_Kd p)"
      using assms(7) by simp
    then have "neighborIndex (st_pELL p) m j * batch s + b < length (data (thr s ! a))"
      using assms(4,6) by (simp add: cell_bound)
    then show "weight (st_pELL p) m j *
         (if neighborIndex (st_pELL p) m j * batch s + b < length (data (thr s ! a))
          then data (thr s ! a) ! (neighborIndex (st_pELL p) m j * batch s + b) else 0) =
        weight (st_pELL p) m j *
              data (thr s ! a) ! (neighborIndex (st_pELL p) m j * batch s + b)"
      by simp
  qed simp
  finally have v: "?y ! (m * batch s + b) =
      (\<Sum>j<prodJd (st_pELL p). weight (st_pELL p) m j *
              data (thr s ! a) ! (neighborIndex (st_pELL p) m j * batch s + b))" .
  show ?thesis
    using v ly by (simp add: k2y_dev[OF assms(3)])
qed

theorem k2y_gathers_prodJd_neighbours_witness:
  "planned demo_st None demo_k \<and> nRow (st_pELL demo_st) = st_M demo_st \<and>
   1 < length (thr demo_k) \<and>
   length (data (thr demo_k ! 1)) = prod_list (st_Kd demo_st) * batch demo_k \<and>
   1 < st_M demo_st \<and> 0 < batch demo_k \<and>
   prodJd (st_pELL demo_st) = 2 \<and>
   neighborIndex (st_pELL demo_st) 1 0 < prod_list (st_Kd demo_st) \<and>
   neighborIndex (st_pELL demo_st) 1 1 < prod_list (st_Kd demo_st) \<and>
   data (thr (snd (k2y demo_k (GpuArray 1))) ! length (thr demo_k)) ! (1 * batch demo_k + 0) =
     (\<Sum>j<prodJd (st_pELL demo_st). weight (st_pELL demo_st) 1 j *
        data (thr demo_k ! 1) ! (neighborIndex (st_pELL demo_st) 1 j * batch demo_k + 0))"
proof -
  have h2: "nRow (st_pELL demo_st) = st_M demo_st"
    by (simp add: demo_st_def demo_pELL_def)
  have h3: "1 < length (thr demo_k)" by (simp add: demo_k_thr)
  have h4: "length (data (thr demo_k ! 1)) = prod_list (st_Kd demo_st) * batch demo_k"
    by (simp add: demo_k_thr demo_k_batch demo_st_def)
  have h5: "1 < st_M demo_st" by (simp add: demo_st_def)
  have h6: "0 < batch demo_k" by (simp add: demo_k_batch)
  have h7: "\<forall>j<prodJd (st_pELL demo_st).
      neighborIndex (st_pELL demo_st) 1 j < prod_list (st_Kd demo_st)"
    by (simp add: demo_st_def demo_pELL_def)
  have h8: "prodJd (st_pELL demo_st) = 2"
    "neighborIndex (st_pELL demo_st) 1 0 < prod_list (st_Kd demo_st)"
    "neighborIndex (st_pELL demo_st) 1 1 < prod_list (st_Kd demo_st)"
    by (simp_all add: demo_st_def demo_pELL_def)
  show ?thesis
    using planned_demo_k h2 h3 h4 h5 h6 h8
      k2y_gathers_prodJd_neighbours[OF planned_demo_k h2 h3 h4 h5 h6 h7]
    by blast
qed


subsection \<open>Shapes\<close>

text \<open>
  C7. On a planned instance \<open>forward\<close> of a device array returns an array of shape
  \<open>(M,)\<close> when the plan has no batch and \<open>(M, batch)\<close> when it has one, and \<open>adjoint\<close>
  of a device array returns an array of shape \<open>Nd\<close>, respectively \<open>Nd + (batch,)\<close>. The
  output shapes are those of the plan whatever the shape of the input, so they hold in
  particular for inputs of the shapes the claim names.
\<close>

theorem forward_adjoint_shapes:
  assumes "planned p bo s" and "a < length (thr s)"
  shows "fst (forward s (GpuArray a)) = Inr (GpuArray (length (thr s) + 2)) \<and>
         length (thr s) + 2 < length (thr (snd (forward s (GpuArray a)))) \<and>
         shape (thr (snd (forward s (GpuArray a))) ! (length (thr s) + 2)) =
           (case bo of None \<Rightarrow> [st_M p] | Some n \<Rightarrow> [st_M p, n]) \<and>
         fst (adjoint s (GpuArray a)) = Inr (GpuArray (length (thr s) + 5)) \<and>
         length (thr s) + 5 < length (thr (snd (adjoint s (GpuArray a)))) \<and>
         shape (thr (snd (adjoint s (GpuArray a))) ! (length (thr s) + 5)) =
           (case bo of None \<Rightarrow> st_Nd p | Some n \<Rightarrow> st_Nd p @ [n])"
proof -
  from assms(1) have m: "multi_M s = (case bo of None \<Rightarrow> [st_M p] | Some n \<Rightarrow> [st_M p, n])"
    and n: "multi_Nd s = (case bo of None \<Rightarrow> st_Nd p | Some n \<Rightarrow> st_Nd p @ [n])"
    by (simp_all add: planned_def)
  obtain bs where bs: "length bs = 6" "thr (snd (adjoint s (GpuArray a))) = thr s @ bs"
    "shape (bs ! 5) = multi_Nd s"
    "fst (adjoint s (GpuArray a)) = Inr (GpuArray (length (thr s) + 5))"
    using adjoint_dev_thr[OF assms(2)] by blast
  have f: "fst (forward s (GpuArray a)) = Inr (GpuArray (length (thr s) + 2))"
    "length (thr s) + 2 < length (thr (snd (forward s (GpuArray a))))"
    "shape (thr (snd (forward s (GpuArray a))) ! (length (thr s) + 2)) = multi_M s"
    by (simp_all add: forward_dev[OF assms(2)] nth_append)
  have g: "length (thr s) + 5 < length (thr (snd (adjoint s (GpuArray a))))"
    "shape (thr (snd (adjoint s (GpuArray a))) ! (length (thr s) + 5)) = multi_Nd s"
    using bs by (simp_all add: nth_append)
  show ?thesis
    using f g bs(4) m n by simp
qed

theorem forward_adjoint_shapes_witness:
  "planned demo_st None demo_gx \<and> 1 < length (thr demo_gx) \<and>
   shape (thr (snd (forward demo_gx (GpuArray 1))) ! (length (thr demo_gx) + 2)) =
     (case None :: nat option of None \<Rightarrow> [st_M demo_st] | Some n \<Rightarrow> [st_M demo_st, n]) \<and>
   shape (thr (snd (adjoint demo_gx (GpuArray 1))) ! (length (thr demo_gx) + 5)) =
     (case None :: nat option of None \<Rightarrow> st_Nd demo_st | Some n \<Rightarrow> st_Nd demo_st @ [n])"
proof -
  have h: "1 < length (thr demo_gx)" by (simp add: demo_gx_len)
  show ?thesis
    using planned_demo_gx h forward_adjoint_shapes[OF planned_demo_gx h] by blast
qed

subsection \<open>What the entry points leave alone\<close>

text \<open>
  C9. \<open>forward\<close> and \<open>adjoint\<close> of a device array \<open>a\<close> leave every buffer that existed
  before the call as it was, the input among them. The stages \<open>x2xx\<close> and \<open>xx2x\<close> return
  a new array, which holds the scaling kernel's result on a copy of the input, and write
  to nothing else. (The kernels are taken to write only the
  array they are given as output; \<open>adjoint\<close> hands its input to the scatter kernel as
  the array to read.)
\<close>

theorem forward_adjoint_leave_input:
  assumes "a < length (thr s)"
  shows "take (length (thr s)) (thr (snd (forward s (GpuArray a)))) = thr s \<and>
         thr (snd (forward s (GpuArray a))) ! a = thr s ! a \<and>
         take (length (thr s)) (thr (snd (adjoint s (GpuArray a)))) = thr s \<and>
         thr (snd (adjoint s (GpuArray a))) ! a = thr s ! a \<and>
         fst (x2xx s (GpuArray a)) = Inr (GpuArray (length (thr s))) \<and>
         take (length (thr s)) (thr (snd (x2xx s (GpuArray a)))) = thr s \<and>
         data (thr (snd (x2xx s (GpuArray a))) ! length (thr s)) =
           cTensorMultiply (prg s) (batch s) (tSN s) (data (thr s ! a)) 0 \<and>
         fst (xx2x s (GpuArray a)) = Inr (GpuArray (length (thr s))) \<and>
         take (length (thr s)) (thr (snd (xx2x s (GpuArray a)))) = thr s \<and>
         data (thr (snd (xx2x s (GpuArray a))) ! length (thr s)) =
           cTensorMultiply (prg s) (batch s) (tSN s) (data (thr s ! a)) 0"
proof -
  obtain bs where bs: "thr (snd (adjoint s (GpuArray a))) = thr s @ bs"
    using adjoint_dev_thr[OF assms] by blast
  show ?thesis
    using assms bs
    by (simp add: forward_dev x2xx_dev xx2x_dev nth_append)
qed


theorem forward_adjoint_leave_input_witness:
  "1 < length (thr demo_gx) \<and>
   thr (snd (forward demo_gx (GpuArray 1))) ! 1 = thr demo_gx ! 1 \<and>
   thr (snd (adjoint demo_gx (GpuArray 1))) ! 1 = thr demo_gx ! 1"
proof -
  have h: "1 < length (thr demo_gx)" by (simp add: demo_gx_len)
  show ?thesis using h forward_adjoint_leave_input[OF h] by blast
qed

subsection \<open>Coil sensitivities\<close>



text \<open>
  C5, as the claim states it, fails for a plan without a batch: there \<open>batch\<close> is 1 and
  the guard of \<open>set_sense\<close> compares the shape with \<open>multi_Nd = Nd\<close>, so a profile of
  shape \<open>Nd + (batch,)\<close> is refused and one of shape \<open>Nd\<close> is accepted.
\<close>

theorem set_sense_guard_counterexample:
  "batch demo = 1 \<and>
   fst (set_sense demo (NdArray (Nd demo @ [batch demo]) [1, 1])) = Inl ValueError \<and>
   [2] \<noteq> Nd demo @ [batch demo] \<and>
   fst (set_sense demo (NdArray [2] [1, 1])) = Inr ()"
  by (simp add: set_sense_def demo_fields demo_thr ctx_defs)

text \<open>
  C5, amended. On a planned instance \<open>set_sense\<close> of a host array raises
  \<open>ValueError\<close> and leaves the instance as it was when the shape differs from
  \<open>multi_Nd\<close>, which is \<open>Nd\<close> for a plan without a batch and \<open>Nd + (batch,)\<close> for a plan
  with one; otherwise it succeeds and binds the profile to a new device array that
  holds the host array.
\<close>

theorem set_sense_guard:
  assumes "planned p bo s"
  shows "set_sense s (NdArray shp d) =
     (if shp = (case bo of None \<Rightarrow> st_Nd p | Some n \<Rightarrow> st_Nd p @ [n])
      then (Inr (), s\<lparr>thr := thr s @ [\<lparr>shape = shp, dtype = complex64, data = d\<rparr>],
                      gpu_coil_profile := length (thr s)\<rparr>)
      else (Inl ValueError, s))"
  using assms
  by (simp add: planned_def set_sense_def ctx_defs)


theorem set_sense_guard_witness:
  "planned demo_st None demo \<and>
   fst (set_sense demo (NdArray [2] [5, 6])) = Inr () \<and>
   set_sense demo (NdArray [3] [5, 6, 7]) = (Inl ValueError, demo)"
  using planned_demo set_sense_guard[OF planned_demo, of "[2]" "[5, 6]"]
    set_sense_guard[OF planned_demo, of "[3]" "[5, 6, 7]"]
  by (simp add: demo_st_def)

subsection \<open>The channel combination\<close>

text \<open>
  C10, as the claim states it, fails under the profile that \<open>plan\<close> installs: every
  element is multiplied by the conjugate of 1, so after \<open>x2s\<close> the array holds the values
  it held before.
\<close>

theorem x2s_overwrites_with_product_counterexample:
  "data (thr demo_bx ! 1) = [1, 2 * \<i>, 3, 4] \<and>
   fst (x2s demo_bx (GpuArray 1)) = Inr (GpuArray 2) \<and>
   thr (snd (x2s demo_bx (GpuArray 1))) ! 1 = thr demo_bx ! 1"
  by (simp add: x2s_dev demo_bx_thr demo_bx_fields Let_def multiply_by_conj_ones)

text \<open>
  C10, amended. \<open>x2s\<close> overwrites its input array in place with the product of each
  element and the conjugate of the profile's element at the same position (over the
  \<open>batch * Ndprod\<close> work items, as far as both arrays reach), so the array keeps a value
  exactly where that product equals it; \<open>s2x\<close> leaves its input array as it was.
\<close>

theorem x2s_overwrites_with_product:
  assumes "a < length (thr s)" and "gpu_coil_profile s < length (thr s)"
  shows "data (thr (snd (x2s s (GpuArray a))) ! a) =
           cMultiplyConjVecInplace 1 (data (thr s ! gpu_coil_profile s)) (data (thr s ! a))
             (batch s * Ndprod s) \<and>
         length (data (thr (snd (x2s s (GpuArray a))) ! a)) = length (data (thr s ! a)) \<and>
         list_all (\<lambda>i. data (thr (snd (x2s s (GpuArray a))) ! a) ! i =
                     (if i < batch s * Ndprod s \<and> i < length (data (thr s ! gpu_coil_profile s))
                      then data (thr s ! a) ! i * cnj (data (thr s ! gpu_coil_profile s) ! i)
                      else data (thr s ! a) ! i))
           [0..<length (data (thr s ! a))] \<and>
         thr (snd (s2x s (GpuArray a))) ! a = thr s ! a"
  using assms
  by (simp add: x2s_dev s2x_dev Let_def nth_append cMultiplyConjVecInplace_def list_all_iff)


theorem x2s_overwrites_with_product_witness:
  "1 < length (thr demo_bx) \<and> gpu_coil_profile demo_bx < length (thr demo_bx) \<and>
   data (thr (snd (x2s demo_bx (GpuArray 1))) ! 1) =
     cMultiplyConjVecInplace 1 (data (thr demo_bx ! gpu_coil_profile demo_bx))
       (data (thr demo_bx ! 1)) (batch demo_bx * Ndprod demo_bx) \<and>
   thr (snd (s2x demo_bx (GpuArray 1))) ! 1 = thr demo_bx ! 1"
proof -
  have h: "1 < length (thr demo_bx)" "gpu_coil_profile demo_bx < length (thr demo_bx)"
    by (simp_all add: demo_bx_thr demo_bx_fields)
  show ?thesis
    using h x2s_overwrites_with_product[OF h] by blast
qed

subsection \<open>The fallback of the entry points\<close>







end
